theory Spec2Isabelle
  imports Complex_Main "HOL-Library.AList"
begin

section \<open>Wssgrok: a reconnecting WebSocket client with request correlation\<close>

text \<open>
  A shallow embedding of the class \<^verbatim>\<open>Wssgrok\<close> of \<^verbatim>\<open>src/index.ts\<close>. The fields of
  the class are the first nine fields of the record \<open>state\<close>; the remaining fields are
  the part of the JavaScript environment that the methods act on: the promises created by
  \<^verbatim>\<open>send\<close>, the timers, the frames handed to the socket, the console and the
  sequence of handler invocations. Every method and every socket or timer callback is a
  function from state to state.
\<close>

subsection \<open>Values, events and handlers\<close>

text \<open>\<^verbatim>\<open>type Event = "connect" | "disconnect" | "message" | "verify"\<close>\<close>

datatype event = Connect | Disconnect | Message | Verify

text \<open>Values of type \<^verbatim>\<open>any\<close>: payloads, rejection reasons, thrown exceptions.\<close>

datatype jsval =
    JUndefined
  | JNull
  | JBool bool
  | JNum int
  | JStr string
  | JError string
  | JObj "(string \<times> jsval) list"

text \<open>
  The object that \<^verbatim>\<open>JSON.parse(event.data)\<close> yields for an inbound frame. Its key is
  any value; a frame without a key has \<open>JUndefined\<close> there.
\<close>

record envelope =
  key :: jsval
  mtype :: string
  payload :: jsval

text \<open>The arguments \<^verbatim>\<open>...args\<close> that \<^verbatim>\<open>trigger\<close> passes on: a close event (its code) or a parsed message.\<close>

datatype arg = ACloseEvent nat | AMessage envelope

text \<open>
  A handler is a JavaScript function. What it does to the instance while it runs is a list of
  calls to the registration methods \<^verbatim>\<open>on\<close> and \<^verbatim>\<open>onNext\<close>: these are the
  re-entrant calls that the dispatch of \<^verbatim>\<open>trigger\<close> is sensitive to. The number
  identifies the function.
\<close>

datatype handler = Handler nat "action list"
and action = DoOn event handler | DoOnNext event handler

fun body :: "handler \<Rightarrow> action list" where
  "body (Handler n acts) = acts"

text \<open>The outcome passed to \<^verbatim>\<open>resolve\<close> or to \<^verbatim>\<open>reject\<close> of a promise.\<close>

datatype outcome = Resolved jsval | Rejected jsval

text \<open>What \<^verbatim>\<open>ws.send\<close> (with \<^verbatim>\<open>JSON.stringify\<close>) does at one call: it returns or it throws.\<close>

datatype tx = TxOk | TxThrows string

datatype frame = Request string jsval | PingFrame

datatype console_entry = Log string | LogSend jsval | ErrorLine string

datatype error = NotReady

subsection \<open>The instance and its environment\<close>

text \<open>
  \<open>pending\<close> is the \<^verbatim>\<open>Map\<close> from correlation key to the pair of settling functions of
  one promise; the pair is represented by the index of that promise in \<open>promises\<close>. An
  association list keeps the insertion order that \<^verbatim>\<open>Map.forEach\<close> follows.
  \<open>promises ! p\<close> is the sequence of outcomes that the settling functions of promise
  \<open>p\<close> have been called with, oldest first. \<open>timers\<close> lists the calls of
  \<^verbatim>\<open>setTimeout\<close> (key captured by the callback, delay), \<open>intervals\<close> the running
  interval timers (id, period).
\<close>

record state =
  url :: string
  ready :: bool
  ws :: "nat option"
  pingInterval :: "nat option"
  pending :: "(string \<times> nat) list"
  messageTimeout :: nat
  connectionVerified :: bool
  onEventFunctions :: "event \<Rightarrow> handler list"
  onNextEventFunctions :: "event \<Rightarrow> handler list"
  promises :: "outcome list list"
  timers :: "(string \<times> nat) list"
  intervals :: "(nat \<times> nat) list"
  next_id :: nat
  wire :: "frame list"
  console :: "console_entry list"
  invoked :: "(handler \<times> arg list) list"

definition PING_INTERVAL_MS :: nat where
  "PING_INTERVAL_MS = 5000"

definition RECONNECT_DELAY_MS :: real where
  "RECONNECT_DELAY_MS = 10000"

definition MESSAGE_TIMEOUT_MS :: nat where
  "MESSAGE_TIMEOUT_MS = 10000"

subsection \<open>Promises\<close>

text \<open>
  A promise is settled by the first call of one of its settling functions; later calls
  change nothing for whoever awaits it. \<open>future\<close> is what the caller of \<^verbatim>\<open>send\<close>
  observes: \<open>None\<close> while the promise is pending.
\<close>

definition settle :: "nat \<Rightarrow> outcome \<Rightarrow> state \<Rightarrow> state" where
  "settle p out s =
     (if p < length (promises s)
      then s\<lparr>promises := (promises s)[p := promises s ! p @ [out]]\<rparr>
      else s)"

definition future :: "state \<Rightarrow> nat \<Rightarrow> outcome option" where
  "future s p =
     (if p < length (promises s)
      then (case promises s ! p of [] \<Rightarrow> None | out # _ \<Rightarrow> Some out)
      else None)"

subsection \<open>The event bus\<close>

text \<open>\<^verbatim>\<open>on(event, f)\<close>: \<^verbatim>\<open>this.onEventFunctions[event].push(f)\<close>\<close>

definition on :: "event \<Rightarrow> handler \<Rightarrow> state \<Rightarrow> state" where
  "on e f s = s\<lparr>onEventFunctions := (onEventFunctions s)(e := onEventFunctions s e @ [f])\<rparr>"

text \<open>\<^verbatim>\<open>onNext(event, f)\<close>: \<^verbatim>\<open>this.onNextEventFunctions[event].push(f)\<close>\<close>

definition onNext :: "event \<Rightarrow> handler \<Rightarrow> state \<Rightarrow> state" where
  "onNext e f s =
     s\<lparr>onNextEventFunctions := (onNextEventFunctions s)(e := onNextEventFunctions s e @ [f])\<rparr>"

fun exec :: "action \<Rightarrow> state \<Rightarrow> state" where
  "exec (DoOn e h) s = on e h s"
| "exec (DoOnNext e h) s = onNext e h s"

text \<open>One call \<^verbatim>\<open>f(...args)\<close>: the invocation is recorded, then the body runs.\<close>

definition call :: "arg list \<Rightarrow> handler \<Rightarrow> state \<Rightarrow> state" where
  "call args f s = fold exec (body f) (s\<lparr>invoked := invoked s @ [(f, args)]\<rparr>)"

text \<open>
  \<^verbatim>\<open>trigger(event, ...args)\<close>. \<^verbatim>\<open>Array.prototype.forEach\<close> fixes the range of indices
  before the first call, so that elements pushed while it runs are not visited; handlers
  only push. Hence each \<^verbatim>\<open>forEach\<close> is a fold over the list as it is when that
  \<^verbatim>\<open>forEach\<close> starts: the second one reads \<^verbatim>\<open>this.onNextEventFunctions[event]\<close>
  after the persistent handlers have run.
\<close>

definition trigger :: "event \<Rightarrow> arg list \<Rightarrow> state \<Rightarrow> state" where
  "trigger e args s =
     (let s1 = fold (call args) (onEventFunctions s e) s;
          s2 = fold (call args) (onNextEventFunctions s1 e) s1
      in s2\<lparr>onNextEventFunctions := (onNextEventFunctions s2)(e := [])\<rparr>)"

subsection \<open>Timers of the environment\<close>

text \<open>\<^verbatim>\<open>clearInterval(id)\<close>; \<^verbatim>\<open>clearInterval(undefined)\<close> does nothing.\<close>

definition clearInterval :: "nat option \<Rightarrow> state \<Rightarrow> state" where
  "clearInterval i s =
     (case i of None \<Rightarrow> s | Some n \<Rightarrow> s\<lparr>intervals := AList.delete n (intervals s)\<rparr>)"

subsection \<open>Connection life cycle\<close>

text \<open>\<^verbatim>\<open>verify()\<close>\<close>

definition verify :: "state \<Rightarrow> state" where
  "verify s = trigger Verify [] (s\<lparr>connectionVerified := True\<rparr>)"

text \<open>\<^verbatim>\<open>cleanup()\<close>\<close>

definition cleanup :: "state \<Rightarrow> state" where
  "cleanup s = (clearInterval (pingInterval s) (s\<lparr>ready := False\<rparr>))\<lparr>ws := None\<rparr>"

text \<open>\<^verbatim>\<open>connect()\<close>: a new socket replaces the handle; its callbacks are the functions below.\<close>

definition connect :: "state \<Rightarrow> state" where
  "connect s = s\<lparr>ws := Some (next_id s), next_id := Suc (next_id s)\<rparr>"

text \<open>\<^verbatim>\<open>ws.onopen\<close>\<close>

definition onopen :: "state \<Rightarrow> state" where
  "onopen s =
     (let s1 = clearInterval (pingInterval s) (s\<lparr>ready := True\<rparr>);
          s2 = s1\<lparr>pingInterval := Some (next_id s1),
                 intervals := intervals s1 @ [(next_id s1, PING_INTERVAL_MS)],
                 next_id := Suc (next_id s1)\<rparr>
      in trigger Connect [] s2)"

text \<open>
  The argument of \<^verbatim>\<open>sleep\<close> in \<^verbatim>\<open>ws.onclose\<close>, as a function of the value \<open>r\<close> of
  \<^verbatim>\<open>Math.random()\<close>, over the reals.
\<close>

definition reconnect_delay :: "real \<Rightarrow> real" where
  "reconnect_delay r = RECONNECT_DELAY_MS * r + 1000"

text \<open>\<^verbatim>\<open>pending.forEach((promise) => promise.reject("disconnect"))\<close>\<close>

definition reject_all :: "state \<Rightarrow> state" where
  "reject_all s = fold (\<lambda>(k, p). settle p (Rejected (JStr ''disconnect''))) (pending s) s"

text \<open>
  \<^verbatim>\<open>ws.onclose\<close>, up to the \<^verbatim>\<open>await\<close>: the state it leaves and the number of
  milliseconds after which \<^verbatim>\<open>connect()\<close> is called.
\<close>

definition onclose :: "nat \<Rightarrow> real \<Rightarrow> state \<Rightarrow> state \<times> real" where
  "onclose ev r s =
     (let s1 = (if ready s then trigger Disconnect [ACloseEvent ev] (reject_all s) else s);
          s2 = cleanup (s1\<lparr>connectionVerified := False\<rparr>)
      in (s2, reconnect_delay r))"

text \<open>\<^verbatim>\<open>ws.onerror\<close>\<close>

definition onerror :: "state \<Rightarrow> state" where
  "onerror s = s\<lparr>console := console s @ [ErrorLine ''WebSocket error:'']\<rparr>"

text \<open>
  \<^verbatim>\<open>if (msg.key)\<close>: \<^verbatim>\<open>undefined\<close>, \<^verbatim>\<open>null\<close>, \<^verbatim>\<open>false\<close>, zero and the
  empty string are falsy, every other value is truthy.
\<close>

fun truthy :: "jsval \<Rightarrow> bool" where
  "truthy JUndefined = False"
| "truthy JNull = False"
| "truthy (JBool b) = b"
| "truthy (JNum n) = (n \<noteq> 0)"
| "truthy (JStr k) = (k \<noteq> [])"
| "truthy (JError x) = True"
| "truthy (JObj members) = True"

text \<open>
  \<^verbatim>\<open>this.pending.get(msg.key)\<close> and \<^verbatim>\<open>this.pending.delete(msg.key)\<close>: the keys of
  the map are strings, and a value that is not a string equals none of them.
\<close>

fun pending_get :: "(string \<times> nat) list \<Rightarrow> jsval \<Rightarrow> nat option" where
  "pending_get ps (JStr k) = map_of ps k"
| "pending_get ps other = None"

fun pending_delete :: "jsval \<Rightarrow> (string \<times> nat) list \<Rightarrow> (string \<times> nat) list" where
  "pending_delete (JStr k) ps = AList.delete k ps"
| "pending_delete other ps = ps"

text \<open>\<^verbatim>\<open>ws.onmessage\<close>, on the parsed message.\<close>

definition onmessage :: "envelope \<Rightarrow> state \<Rightarrow> state" where
  "onmessage msg s =
     (let s1 = s\<lparr>console := console s @ [Log (''Server: '' @ mtype msg)]\<rparr>
      in if truthy (key msg)
         then
           (case pending_get (pending s1) (key msg) of
              None \<Rightarrow>
                s1\<lparr>console := console s1 @
                     [ErrorLine ''Message not found in queue - will not process'']\<rparr>
            | Some p \<Rightarrow>
                (let s2 = (if mtype msg = ''failure''
                           then settle p (Rejected (payload msg)) s1
                           else settle p (Resolved (payload msg)) s1)
                 in s2\<lparr>pending := pending_delete (key msg) (pending s2)\<rparr>))
         else trigger Message [AMessage msg] s1)"

text \<open>\<^verbatim>\<open>ping()\<close>\<close>

definition ping :: "tx \<Rightarrow> state \<Rightarrow> state" where
  "ping t s =
     (if ready s
      then (case ws s of
              None \<Rightarrow> s
            | Some w \<Rightarrow>
                (case t of
                   TxOk \<Rightarrow> s\<lparr>wire := wire s @ [PingFrame]\<rparr>
                 | TxThrows x \<Rightarrow> s\<lparr>console := console s @ [ErrorLine x]\<rparr>))
      else s)"

subsection \<open>Requests\<close>

text \<open>The callback given to \<^verbatim>\<open>setTimeout\<close> in \<^verbatim>\<open>send\<close>, for the key it captured.\<close>

definition deadline :: "string \<Rightarrow> state \<Rightarrow> state" where
  "deadline k s =
     (let s1 = (case map_of (pending s) k of
                  None \<Rightarrow> s
                | Some p \<Rightarrow>
                    settle p (Rejected (JStr ''timeout''))
                      (s\<lparr>console := console s @ [Log ''msg timeout!'']\<rparr>))
      in s1\<lparr>pending := AList.delete k (pending s1)\<rparr>)"

text \<open>\<^verbatim>\<open>setTimeout(..., timeout ?? this.messageTimeout)\<close>\<close>

definition setTimeout :: "string \<Rightarrow> nat option \<Rightarrow> state \<Rightarrow> state" where
  "setTimeout k timeout s =
     s\<lparr>timers := timers s @
          [(k, case timeout of None \<Rightarrow> messageTimeout s | Some t \<Rightarrow> t)]\<rparr>"

text \<open>
  \<^verbatim>\<open>send(message, timeout)\<close>. \<open>k\<close> is the value of \<^verbatim>\<open>uuid4()\<close> and \<open>t\<close> the behaviour
  of \<^verbatim>\<open>ws.send\<close> at this call. The result is the error with which the call fails, or the
  promise it returns. An exception thrown in the executor of \<^verbatim>\<open>new Promise\<close> rejects the
  promise and ends the executor: \<^verbatim>\<open>setTimeout\<close> is not reached.
\<close>

definition send :: "jsval \<Rightarrow> nat option \<Rightarrow> string \<Rightarrow> tx \<Rightarrow> state \<Rightarrow> (error + nat) \<times> state" where
  "send message timeout k t s =
     (if \<not> ready s then (Inl NotReady, s)
      else
        (let s1 = s\<lparr>console := console s @ [LogSend message]\<rparr>;
             p = length (promises s1);
             s2 = s1\<lparr>promises := promises s1 @ [[]],
                    pending := AList.update k p (pending s1)\<rparr>
         in case ws s2 of
              None \<Rightarrow>
                (Inr p, setTimeout k timeout (settle p (Rejected (JStr ''ws is undefined'')) s2))
            | Some w \<Rightarrow>
                (case t of
                   TxOk \<Rightarrow>
                     (Inr p, setTimeout k timeout (s2\<lparr>wire := wire s2 @ [Request k message]\<rparr>))
                 | TxThrows x \<Rightarrow>
                     (Inr p, settle p (Rejected (JError x)) s2))))"

text \<open>The constructor: \<^verbatim>\<open>new Wssgrok(url)\<close>.\<close>

definition new_Wssgrok :: "string \<Rightarrow> state" where
  "new_Wssgrok u =
     connect \<lparr>url = u, ready = False, ws = None, pingInterval = None, pending = [],
              messageTimeout = MESSAGE_TIMEOUT_MS, connectionVerified = False,
              onEventFunctions = (\<lambda>e. []), onNextEventFunctions = (\<lambda>e. []),
              promises = [], timers = [], intervals = [], next_id = 0, wire = [],
              console = [], invoked = []\<rparr>"

subsection \<open>Histories\<close>

text \<open>
  What can happen to an instance: a call of a public method, or a callback of the socket
  or of a timer. \<open>run\<close> applies a history, oldest first.
\<close>

datatype op =
    CallSend jsval "nat option" string tx
  | CallOn event handler
  | CallOnNext event handler
  | CallVerify
  | CallCleanup
  | CallConnect
  | CallPing tx
  | SocketOpen
  | SocketClose nat real
  | SocketError
  | SocketMessage envelope
  | TimerDeadline string
  | TimerReconnect

fun step :: "op \<Rightarrow> state \<Rightarrow> state" where
  "step (CallSend m timeout k t) s = snd (send m timeout k t s)"
| "step (CallOn e f) s = on e f s"
| "step (CallOnNext e f) s = onNext e f s"
| "step CallVerify s = verify s"
| "step CallCleanup s = cleanup s"
| "step CallConnect s = connect s"
| "step (CallPing t) s = ping t s"
| "step SocketOpen s = onopen s"
| "step (SocketClose ev r) s = fst (onclose ev r s)"
| "step SocketError s = onerror s"
| "step (SocketMessage msg) s = onmessage msg s"
| "step (TimerDeadline k) s = deadline k s"
| "step TimerReconnect s = connect s"

definition run :: "op list \<Rightarrow> state \<Rightarrow> state" where
  "run ops s = fold step ops s"

subsection \<open>Notions used in the properties\<close>

text \<open>
  The handlers that a handler body registers for event \<open>e\<close>, in the order of the calls:
  \<open>on_regs\<close> with \<^verbatim>\<open>on\<close>, \<open>next_regs\<close> with \<^verbatim>\<open>onNext\<close>. \<open>registered regs e fs\<close>
  collects them over the handlers \<open>fs\<close>.
\<close>

fun on_regs :: "event \<Rightarrow> action list \<Rightarrow> handler list" where
  "on_regs e [] = []"
| "on_regs e (DoOn e' h # acts) = (if e' = e then h # on_regs e acts else on_regs e acts)"
| "on_regs e (DoOnNext e' h # acts) = on_regs e acts"

fun next_regs :: "event \<Rightarrow> action list \<Rightarrow> handler list" where
  "next_regs e [] = []"
| "next_regs e (DoOn e' h # acts) = next_regs e acts"
| "next_regs e (DoOnNext e' h # acts) =
     (if e' = e then h # next_regs e acts else next_regs e acts)"

definition registered ::
  "(event \<Rightarrow> action list \<Rightarrow> handler list) \<Rightarrow> event \<Rightarrow> handler list \<Rightarrow> handler list" where
  "registered regs e fs = concat (map (\<lambda>f. regs e (body f)) fs)"

text \<open>The heartbeat runs when the interval timer that \<open>pingInterval\<close> names is active.\<close>

definition heartbeat_running :: "state \<Rightarrow> bool" where
  "heartbeat_running s =
     (case pingInterval s of None \<Rightarrow> False | Some n \<Rightarrow> map_of (intervals s) n \<noteq> None)"

text \<open>
  Two instances used as concrete inputs: one just constructed, whose socket has not opened
  yet, and the same one after its socket has opened.
\<close>

definition idle :: state where
  "idle = new_Wssgrok ''wss://example.com/ws''"

definition connected :: state where
  "connected = onopen idle"

text \<open>
  Two handlers used as concrete inputs: \<open>plain\<close> does nothing to the instance,
  \<open>chaining\<close> registers \<open>plain\<close> as a one-shot handler of the verify event.
\<close>

definition plain :: handler where
  "plain = Handler 2 []"

definition chaining :: handler where
  "chaining = Handler 1 [DoOnNext Verify plain]"

text \<open>
  \<open>wf\<close>: every entry of \<open>pending\<close> refers to a promise that exists. It holds of a new
  instance and every operation keeps it.
\<close>

definition wf :: "state \<Rightarrow> bool" where
  "wf s = list_all (\<lambda>(k, p). p < length (promises s)) (pending s)"




text \<open>
  Concrete instances reached through the public interface and the callbacks: one and two
  requests in flight on an open connection, and an instance whose handle was released by
  \<open>cleanup\<close> before its socket opened, so that it is ready without a handle.
\<close>

definition one_pending :: state where
  "one_pending = run [CallSend (JStr ''hello'') None ''A'' TxOk] connected"

definition two_pending :: state where
  "two_pending =
     run [CallOn Disconnect plain,
          CallSend (JStr ''a'') None ''A'' TxOk,
          CallSend (JStr ''b'') (Some 100) ''B'' TxOk] connected"

definition handle_lost :: state where
  "handle_lost = run [CallCleanup, SocketOpen] idle"

text \<open>
  An open instance on which \<^verbatim>\<open>connect()\<close> was called again: it is ready and its
  handle is a socket that has not opened yet, whose \<^verbatim>\<open>send\<close> throws.
\<close>

definition reconnecting :: state where
  "reconnecting = run [CallConnect] connected"

section \<open>Properties\<close>

subsection \<open>The event bus in closed form\<close>

lemma fold_exec:
  "fold exec acts s =
     s\<lparr>onEventFunctions := (\<lambda>e. onEventFunctions s e @ on_regs e acts),
       onNextEventFunctions := (\<lambda>e. onNextEventFunctions s e @ next_regs e acts)\<rparr>"
proof (induction acts arbitrary: s)
  case Nil
  show ?case by simp
next
  case (Cons a acts)
  show ?case
    by (cases a) (auto simp: Cons.IH on_def onNext_def fun_eq_iff)
qed

lemma call_eq:
  "call args f s =
     s\<lparr>onEventFunctions := (\<lambda>e. onEventFunctions s e @ on_regs e (body f)),
       onNextEventFunctions := (\<lambda>e. onNextEventFunctions s e @ next_regs e (body f)),
       invoked := invoked s @ [(f, args)]\<rparr>"
  by (simp add: call_def fold_exec)

lemma fold_call:
  "fold (call args) fs s =
     s\<lparr>onEventFunctions := (\<lambda>e. onEventFunctions s e @ registered on_regs e fs),
       onNextEventFunctions := (\<lambda>e. onNextEventFunctions s e @ registered next_regs e fs),
       invoked := invoked s @ map (\<lambda>f. (f, args)) fs\<rparr>"
proof (induction fs arbitrary: s)
  case Nil
  show ?case by (simp add: registered_def)
next
  case (Cons f fs)
  let ?c = "call args f s"
  have "fold (call args) (f # fs) s = fold (call args) fs ?c"
    by simp
  also have "\<dots> =
     ?c\<lparr>onEventFunctions := (\<lambda>e. onEventFunctions ?c e @ registered on_regs e fs),
       onNextEventFunctions := (\<lambda>e. onNextEventFunctions ?c e @ registered next_regs e fs),
       invoked := invoked ?c @ map (\<lambda>f. (f, args)) fs\<rparr>"
    by (rule Cons.IH)
  also have "\<dots> =
     s\<lparr>onEventFunctions := (\<lambda>e. onEventFunctions s e @ registered on_regs e (f # fs)),
       onNextEventFunctions := (\<lambda>e. onNextEventFunctions s e @ registered next_regs e (f # fs)),
       invoked := invoked s @ map (\<lambda>f. (f, args)) (f # fs)\<rparr>"
    by (simp add: call_eq registered_def)
  finally show ?case .
qed

text \<open>
  \<open>trigger\<close> touches the two handler tables and the record of invocations, nothing else.
  \<open>fs\<close> are the persistent handlers of the kind at the call, \<open>gs\<close> the one-shot
  handlers of the kind when the second \<^verbatim>\<open>forEach\<close> starts.
\<close>

lemma trigger_eq:
  "trigger e args s =
     (let fs = onEventFunctions s e;
          gs = onNextEventFunctions s e @ registered next_regs e fs
      in s\<lparr>onEventFunctions := (\<lambda>e'. onEventFunctions s e' @ registered on_regs e' (fs @ gs)),
           onNextEventFunctions :=
             (\<lambda>e'. onNextEventFunctions s e' @ registered next_regs e' (fs @ gs))(e := []),
           invoked := invoked s @ map (\<lambda>f. (f, args)) (fs @ gs)\<rparr>)"
  by (simp add: trigger_def fold_call Let_def registered_def fun_eq_iff)

lemma registered_no_body [simp]:
  "registered regs e [] = []"
  by (simp add: registered_def)


lemma idle_simps:
  "ready idle = False" "ws idle = Some 0" "pending idle = []" "promises idle = []"
  "invoked idle = []" "onEventFunctions idle = (\<lambda>e. [])"
  "onNextEventFunctions idle = (\<lambda>e. [])"
  by (simp_all add: idle_def new_Wssgrok_def connect_def)

lemma connected_simps:
  "ready connected" "ws connected = Some 0" "pending connected = []" "promises connected = []"
  "invoked connected = []" "timers connected = []" "wire connected = []"
  "console connected = []" "messageTimeout connected = 10000"
  "pingInterval connected = Some 1" "intervals connected = [(1, 5000)]"
  "next_id connected = 2" "connectionVerified connected = False"
  "onEventFunctions connected = (\<lambda>e. [])" "onNextEventFunctions connected = (\<lambda>e. [])"
  by (simp_all add: connected_def onopen_def trigger_def clearInterval_def Let_def idle_def
      new_Wssgrok_def connect_def MESSAGE_TIMEOUT_MS_def PING_INTERVAL_MS_def fun_eq_iff)

subsection \<open>send while not ready\<close>

text \<open>
  C4. For every payload, timeout, key and transport behaviour, \<open>send\<close> on an instance that
  is not ready fails with the not-ready error and leaves the whole state as it is: no key
  is used, nothing is registered in \<open>pending\<close>, no promise is created, no timer is set
  and nothing is handed to the socket.
\<close>

theorem send_not_ready:
  "\<not> ready s \<Longrightarrow> send message timeout k t s = (Inl NotReady, s)"
  by (simp add: send_def)

theorem send_not_ready_witness:
  "\<not> ready idle \<and> send (JStr ''hello'') None ''A'' TxOk idle = (Inl NotReady, idle)"
  using send_not_ready [of idle "JStr ''hello''" None "''A''" TxOk]
  by (simp add: idle_simps)

subsection \<open>Dispatch of an event\<close>

text \<open>
  C6, as the code has it. For every event kind, argument list and state, \<open>trigger\<close>
  invokes, with these arguments and in this order: the persistent handlers of the kind
  registered at the call, in registration order; then the one-shot handlers of the kind
  registered at the call, in registration order; then the one-shot handlers of the kind
  that the persistent handlers registered while they ran. It invokes no other handler: a
  persistent handler registered during the call, and a one-shot handler registered by a
  one-shot handler during the call, are not invoked by that call. Afterwards the one-shot
  list of the kind is empty.
\<close>

theorem trigger_dispatch:
  "invoked (trigger e args s) =
     invoked s @ map (\<lambda>f. (f, args))
       (onEventFunctions s e @ onNextEventFunctions s e @
        registered next_regs e (onEventFunctions s e)) \<and>
   onNextEventFunctions (trigger e args s) e = []"
  by (simp add: trigger_eq Let_def)

text \<open>
  C6 as stated fails: \<open>plain\<close> is not registered when \<open>trigger\<close> is called, the
  persistent handler \<open>chaining\<close> registers it as a one-shot handler during the call, and
  the same call invokes it.
\<close>

theorem trigger_same_call_counterexample:
  "onEventFunctions (on Verify chaining idle) Verify = [chaining] \<and>
   onNextEventFunctions (on Verify chaining idle) Verify = [] \<and>
   invoked (on Verify chaining idle) = [] \<and>
   invoked (trigger Verify [] (on Verify chaining idle)) = [(chaining, []), (plain, [])] \<and>
   map fst (invoked (trigger Verify [] (on Verify chaining idle))) \<noteq>
     onEventFunctions (on Verify chaining idle) Verify @
     onNextEventFunctions (on Verify chaining idle) Verify"
  by (simp add: trigger_def call_def on_def onNext_def idle_simps chaining_def plain_def)

subsection \<open>One-shot handlers\<close>

text \<open>
  A trigger of another kind leaves the one-shot handlers of a kind in place, and a
  one-shot handler registered while no dispatch of its kind is running is invoked by the
  next trigger of its kind, after which the one-shot list of the kind is empty.
\<close>

lemma onNext_kept_by_other_kind:
  "e' \<noteq> e \<Longrightarrow>
   onNextEventFunctions (trigger e' args s) e =
     onNextEventFunctions s e @
     registered next_regs e
       (onEventFunctions s e' @ onNextEventFunctions s e' @
        registered next_regs e' (onEventFunctions s e'))"
  by (simp add: trigger_eq Let_def)

lemma onNext_then_trigger:
  "invoked (trigger e args (onNext e f s)) =
     invoked s @ map (\<lambda>g. (g, args))
       (onEventFunctions s e @ onNextEventFunctions s e @ [f] @
        registered next_regs e (onEventFunctions s e)) \<and>
   onNextEventFunctions (trigger e args (onNext e f s)) e = []"
  by (simp add: trigger_eq Let_def onNext_def)

text \<open>
  C5 (every handler registered via \<^verbatim>\<open>onNext\<close> is invoked exactly once, on the next
  trigger of its kind after its registration) does not hold of the code at this input.
  The one-shot handler \<open>chaining\<close> of the verify event registers \<open>plain\<close> with
  \<^verbatim>\<open>onNext\<close> for the same event while it runs. The first \<open>verify\<close> invokes
  \<open>chaining\<close> only and then empties the list that \<open>plain\<close> was pushed on; the second
  \<open>verify\<close> invokes nothing: \<open>plain\<close> is never invoked.
\<close>

theorem one_shot_registered_by_one_shot_is_lost:
  "onNextEventFunctions (call [] chaining (onNext Verify chaining idle)) Verify
     = [chaining, plain] \<and>
   invoked (run [CallOnNext Verify chaining, CallVerify] idle) = [(chaining, [])] \<and>
   onNextEventFunctions (run [CallOnNext Verify chaining, CallVerify] idle) Verify = [] \<and>
   invoked (run [CallOnNext Verify chaining, CallVerify, CallVerify] idle) = [(chaining, [])]"
  by (simp add: run_def verify_def trigger_def call_def onNext_def chaining_def plain_def
      idle_simps)

subsection \<open>Backoff before reconnecting\<close>

text \<open>
  C8. After every close of the socket, whatever the state, the handler leaves the instance
  without a socket and not ready, and \<^verbatim>\<open>connect()\<close> follows only after a sleep of
  \<open>RECONNECT_DELAY_MS * r + 1000\<close> milliseconds, where \<open>r\<close> is the random number and
  \<open>RECONNECT_DELAY_MS\<close> is 10000 (ten seconds). As \<open>r\<close> ranges over the half-open unit
  interval, this affine function covers exactly the window from 1000 to 11000
  milliseconds: the fixed minimum of one second plus a window of ten seconds. Real
  numbers stand for the floating-point numbers of the source.
\<close>

theorem reconnect_backoff:
  "snd (onclose ev r s) = RECONNECT_DELAY_MS * r + 1000 \<and> RECONNECT_DELAY_MS = 10000 \<and>
   (\<lambda>r. snd (onclose ev r s)) ` {0..<1} = {1000..<11000} \<and>
   ws (fst (onclose ev r s)) = None \<and> ready (fst (onclose ev r s)) = False"
proof -
  have img: "(\<lambda>r::real. 10000 * r + 1000) ` {0..<1} = {1000..<11000}"
  proof (rule set_eqI, rule iffI)
    fix d :: real
    assume "d \<in> (\<lambda>r. 10000 * r + 1000) ` {0..<1}"
    then show "d \<in> {1000..<11000}" by auto
  next
    fix d :: real
    assume d: "d \<in> {1000..<11000}"
    then have "(d - 1000) / 10000 \<in> {0..<1}" by auto
    moreover have "d = 10000 * ((d - 1000) / 10000) + 1000" by (simp add: field_simps)
    ultimately show "d \<in> (\<lambda>r. 10000 * r + 1000) ` {0..<1}" by (rule rev_image_eqI)
  qed
  show ?thesis
    by (simp add: onclose_def Let_def reconnect_delay_def RECONNECT_DELAY_MS_def img
        cleanup_def clearInterval_def split: option.splits)
qed

subsection \<open>cleanup\<close>

text \<open>
  C9. For every state, \<open>cleanup\<close> releases the socket handle, clears the ready flag and
  stops the heartbeat timer: the interval timer that \<open>pingInterval\<close> named before the
  call is removed from the running interval timers, which are otherwise as before, and
  \<open>pingInterval\<close> keeps its value. It leaves the persistent and the one-shot handler lists of
  every event kind, the url, the pending store and the verified flag as they were (as well
  as the promises, the default timeout and the record of invocations).
\<close>

theorem cleanup_frame:
  "ws (cleanup s) = None \<and> ready (cleanup s) = False \<and> \<not> heartbeat_running (cleanup s) \<and>
   pingInterval (cleanup s) = pingInterval s \<and>
   intervals (cleanup s) =
     (case pingInterval s of None \<Rightarrow> intervals s | Some n \<Rightarrow> AList.delete n (intervals s)) \<and>
   (case pingInterval s of None \<Rightarrow> True | Some n \<Rightarrow> map_of (intervals (cleanup s)) n = None) \<and>
   timers (cleanup s) = timers s \<and> wire (cleanup s) = wire s \<and>
   console (cleanup s) = console s \<and> next_id (cleanup s) = next_id s \<and>
   onEventFunctions (cleanup s) = onEventFunctions s \<and>
   onNextEventFunctions (cleanup s) = onNextEventFunctions s \<and>
   url (cleanup s) = url s \<and> pending (cleanup s) = pending s \<and>
   connectionVerified (cleanup s) = connectionVerified s \<and>
   promises (cleanup s) = promises s \<and> messageTimeout (cleanup s) = messageTimeout s \<and>
   invoked (cleanup s) = invoked s"
  by (auto simp: cleanup_def clearInterval_def heartbeat_running_def AList.delete_conv'
      split: option.splits)

subsection \<open>verify\<close>

text \<open>
  C10. \<open>verify\<close> has no precondition on the connection: in every state it sets the
  verified flag and dispatches the verify event without arguments, to every persistent and
  one-shot handler of that kind registered at the call (and then to the one-shot handlers
  that the persistent ones registered meanwhile), and it leaves the socket handle, the
  pending store, the ready flag, the promises, the frames sent, the timers and the url as
  they were.
\<close>

theorem verify_any_state:
  "connectionVerified (verify s) \<and>
   invoked (verify s) =
     invoked s @ map (\<lambda>f. (f, []))
       (onEventFunctions s Verify @ onNextEventFunctions s Verify @
        registered next_regs Verify (onEventFunctions s Verify)) \<and>
   onNextEventFunctions (verify s) Verify = [] \<and>
   ws (verify s) = ws s \<and> pending (verify s) = pending s \<and> ready (verify s) = ready s \<and>
   promises (verify s) = promises s \<and> wire (verify s) = wire s \<and>
   timers (verify s) = timers s \<and> intervals (verify s) = intervals s \<and>
   pingInterval (verify s) = pingInterval s \<and> url (verify s) = url s"
  by (simp add: verify_def trigger_eq Let_def)

subsection \<open>Pending requests: invariants of the operations\<close>

lemma settle_simps [simp]:
  "pending (settle p out s) = pending s"
  "length (promises (settle p out s)) = length (promises s)"
  "ready (settle p out s) = ready s"
  "ws (settle p out s) = ws s"
  by (simp_all add: settle_def)

lemma settle_nth_other [simp]:
  "q \<noteq> p \<Longrightarrow> promises (settle p out s) ! q = promises s ! q"
  by (simp add: settle_def)

lemma settle_nth_same [simp]:
  "p < length (promises s) \<Longrightarrow> promises (settle p out s) ! p = promises s ! p @ [out]"
  by (simp add: settle_def)

lemma trigger_simps [simp]:
  "pending (trigger e args s) = pending s"
  "promises (trigger e args s) = promises s"
  by (simp_all add: trigger_eq Let_def)

lemma set_delete_subset: "set (AList.delete k al) \<subseteq> set al"
  by (induction al) auto

lemma list_all_delete: "list_all P al \<Longrightarrow> list_all P (AList.delete k al)"
  using set_delete_subset [of k al] by (auto simp: list_all_iff)

lemma list_all_update: "P (k, v) \<Longrightarrow> list_all P al \<Longrightarrow> list_all P (AList.update k v al)"
  by (induction al) auto



lemma list_all_pending_delete: "list_all P ps \<Longrightarrow> list_all P (pending_delete j ps)"
  by (cases j) (simp_all add: list_all_delete)


lemma send_pending:
  "pending (snd (send m timeout k t s)) =
     (if ready s then AList.update k (length (promises s)) (pending s) else pending s)"
  by (simp add: send_def Let_def setTimeout_def split: option.splits tx.splits)

lemma send_length:
  "length (promises (snd (send m timeout k t s))) =
     (if ready s then Suc (length (promises s)) else length (promises s))"
  by (simp add: send_def Let_def setTimeout_def split: option.splits tx.splits)


lemma wf_send: "wf s \<Longrightarrow> wf (snd (send m timeout k t s))"
proof (cases "ready s")
  case True
  assume "wf s"
  then have "list_all (\<lambda>(k, p). p < Suc (length (promises s))) (pending s)"
    by (auto simp: wf_def list_all_iff)
  then have "list_all (\<lambda>(k, p). p < Suc (length (promises s)))
               (AList.update k (length (promises s)) (pending s))"
    by (intro list_all_update) simp_all
  with True show ?thesis
    by (simp add: wf_def send_pending send_length)
next
  case False
  assume "wf s"
  with False show ?thesis by (simp add: send_def)
qed

lemma fold_settle_simps:
  "pending (fold (\<lambda>(k, p). settle p out) al s) = pending s"
  "length (promises (fold (\<lambda>(k, p). settle p out) al s)) = length (promises s)"
  by (induction al arbitrary: s) (auto simp: case_prod_beta)

lemma reject_all_simps [simp]:
  "pending (reject_all s) = pending s"
  "length (promises (reject_all s)) = length (promises s)"
  by (simp_all add: reject_all_def fold_settle_simps)

lemma wf_step: "wf s \<Longrightarrow> wf (step op s)"
proof (cases op)
  case (CallSend m timeout k t)
  assume "wf s"
  then show ?thesis by (simp add: CallSend wf_send)
qed (auto simp: wf_def on_def onNext_def verify_def cleanup_def connect_def ping_def
      onopen_def onclose_def onerror_def onmessage_def deadline_def clearInterval_def Let_def
      intro: list_all_delete list_all_pending_delete split: option.splits tx.splits)

lemma wf_run: "wf s \<Longrightarrow> wf (run ops s)"
  unfolding run_def by (induction ops arbitrary: s) (simp_all add: wf_step)








lemma future_settle:
  "future s p = Some out \<Longrightarrow> future (settle q out' s) p = Some out"
  by (auto simp: future_def settle_def nth_list_update split: list.splits if_splits)

lemma future_fold_settle:
  "future s p = Some out \<Longrightarrow> future (fold (\<lambda>(k, q). settle q out') al s) p = Some out"
  by (induction al arbitrary: s) (auto simp: future_settle)

lemma future_promises: "promises s' = promises s \<Longrightarrow> future s' p = future s p"
  by (simp add: future_def)

lemma future_update_simps [simp]:
  "future (s\<lparr>console := c\<rparr>) p = future s p"
  "future (s\<lparr>pending := ps\<rparr>) p = future s p"
  "future (trigger e args s) p = future s p"
  by (simp_all add: future_def)





subsection \<open>Response against deadline\<close>



text \<open>Every state that a history reaches from a new instance satisfies \<open>wf\<close>.\<close>

lemma wf_new: "wf (new_Wssgrok u)"
  by (simp add: wf_def new_Wssgrok_def connect_def)

lemma wf_reachable: "wf (run ops (new_Wssgrok u))"
  by (rule wf_run) (rule wf_new)

subsection \<open>Outcomes are delivered to the store's entries\<close>

text \<open>
  What holds of the close handler in general: it leaves \<open>pending\<close> as it is; on a ready
  instance it rejects every promise of the store that is still pending with
  \<^verbatim>\<open>disconnect\<close> and dispatches the disconnect event once, with the close event as
  argument. And whatever happens, the outcome that a promise has got stays
  (\<open>future_run\<close> above).
\<close>

lemma onclose_pending: "pending (fst (onclose ev r s)) = pending s"
  by (simp add: onclose_def Let_def cleanup_def clearInterval_def split: option.splits)

lemma future_fold_settle_hit:
  assumes "(k, p) \<in> set al" and "p < length (promises s)"
  shows "future (fold (\<lambda>(k, q). settle q out) al s) p =
           Some (case future s p of None \<Rightarrow> out | Some out' \<Rightarrow> out')"
  using assms
proof (induction al arbitrary: s)
  case Nil
  then show ?case by simp
next
  case (Cons a al)
  obtain k' q where a: "a = (k', q)" by (cases a)
  show ?case
  proof (cases "future s p")
    case (Some out')
    then have "future (fold (\<lambda>(k, q). settle q out) (a # al) s) p = Some out'"
      by (rule future_fold_settle)
    with Some show ?thesis by simp
  next
    case None
    show ?thesis
    proof (cases "q = p")
      case True
      with None Cons.prems(2) have "future (settle q out s) p = Some out"
        by (auto simp: future_def split: list.splits)
      then have "future (fold (\<lambda>(k, q). settle q out) al (settle q out s)) p = Some out"
        by (rule future_fold_settle)
      with None a show ?thesis by simp
    next
      case False
      with Cons.prems a have in_al: "(k, p) \<in> set al" by auto
      from False None have "future (settle q out s) p = None"
        by (simp add: future_def split: if_splits)
      with Cons.IH [OF in_al, of "settle q out s"] Cons.prems(2) None a show ?thesis
        by simp
    qed
  qed
qed

lemma onclose_rejects_pending:
  assumes "ready s" and "(k, p) \<in> set (pending s)" and "p < length (promises s)"
    and "future s p = None"
  shows "future (fst (onclose ev r s)) p = Some (Rejected (JStr ''disconnect''))"
proof -
  have "promises (fst (onclose ev r s)) = promises (reject_all s)"
    using assms(1) by (simp add: onclose_def Let_def cleanup_def clearInterval_def split: option.splits)
  then have "future (fst (onclose ev r s)) p = future (reject_all s) p"
    by (rule future_promises)
  with future_fold_settle_hit [OF assms(2,3), of "Rejected (JStr ''disconnect'')"] assms(4)
  show ?thesis by (simp add: reject_all_def)
qed

lemma fold_settle_bus:
  "invoked (fold (\<lambda>(k, q). settle q out) al s) = invoked s"
  "onEventFunctions (fold (\<lambda>(k, q). settle q out) al s) = onEventFunctions s"
  "onNextEventFunctions (fold (\<lambda>(k, q). settle q out) al s) = onNextEventFunctions s"
  by (induction al arbitrary: s) (auto simp: settle_def)

lemma onclose_disconnect_once:
  assumes "ready s"
  shows "invoked (fst (onclose ev r s)) =
    invoked s @ map (\<lambda>f. (f, [ACloseEvent ev]))
      (onEventFunctions s Disconnect @ onNextEventFunctions s Disconnect @
       registered next_regs Disconnect (onEventFunctions s Disconnect))"
  using assms
  by (simp add: onclose_def Let_def cleanup_def clearInterval_def trigger_eq reject_all_def
      fold_settle_bus split: option.splits)

text \<open>
  C1 (once an outcome is delivered, the id is unresolvable and every later resolve, reject
  or expire against it is a no-op) does not hold of the code at this input. A request with
  key \<^verbatim>\<open>A\<close> is in flight on an open connection and the socket closes: the close
  handler calls \<^verbatim>\<open>reject("disconnect")\<close> of the slot and leaves \<^verbatim>\<open>A\<close> in
  \<open>pending\<close>. When the deadline timer of the request fires, its callback finds the
  entry, prints \<^verbatim>\<open>msg timeout!\<close>, calls \<^verbatim>\<open>reject("timeout")\<close> of the same slot
  and only then deletes the key.
\<close>

theorem close_then_deadline_calls_reject_again:
  "map_of (pending one_pending) ''A'' = Some 0 \<and> future one_pending 0 = None \<and>
   future (run [SocketClose 1006 0] one_pending) 0 = Some (Rejected (JStr ''disconnect'')) \<and>
   map_of (pending (run [SocketClose 1006 0] one_pending)) ''A'' = Some 0 \<and>
   promises (run [SocketClose 1006 0, TimerDeadline ''A''] one_pending)
     = [[Rejected (JStr ''disconnect''), Rejected (JStr ''timeout'')]] \<and>
   console (run [SocketClose 1006 0, TimerDeadline ''A''] one_pending)
     = [LogSend (JStr ''hello''), Log ''msg timeout!''] \<and>
   pending (run [SocketClose 1006 0, TimerDeadline ''A''] one_pending) = []"
  by (simp add: one_pending_def run_def send_def onclose_def deadline_def reject_all_def
      settle_def future_def trigger_def cleanup_def clearInterval_def setTimeout_def Let_def
      connected_simps)

text \<open>
  C2 (on a close after the connection was open, every pending request is rejected with
  the disconnect outcome, its entry is removed from the store, and the disconnect event
  fires once) does not hold of the code at this input: two requests \<^verbatim>\<open>A\<close> and
  \<^verbatim>\<open>B\<close> are in flight and a disconnect handler is registered. The close handler
  rejects both promises with \<^verbatim>\<open>disconnect\<close> and invokes the handler once, but both
  entries are still in \<open>pending\<close> afterwards.
\<close>

theorem close_keeps_pending_entries:
  "pending two_pending = [(''A'', 0), (''B'', 1)] \<and> ready two_pending \<and>
   pending (fst (onclose 1006 0 two_pending)) = [(''A'', 0), (''B'', 1)] \<and>
   promises (fst (onclose 1006 0 two_pending))
     = [[Rejected (JStr ''disconnect'')], [Rejected (JStr ''disconnect'')]] \<and>
   invoked (fst (onclose 1006 0 two_pending)) = [(plain, [ACloseEvent 1006])]"
  by (simp add: two_pending_def run_def send_def onclose_def reject_all_def on_def
      settle_def trigger_def call_def cleanup_def clearInterval_def setTimeout_def Let_def
      connected_simps plain_def)

subsection \<open>Transmission failures\<close>

text \<open>
  When \<open>send\<close> finds no socket handle, or the socket's \<^verbatim>\<open>send\<close> throws, the promise
  is rejected at once, and the key is in \<open>pending\<close> when \<open>send\<close> returns; in the
  second case no deadline timer has been set either.
\<close>

lemma send_without_handle:
  assumes "ready s" and "ws s = None"
  shows "future (snd (send m timeout k t s)) (length (promises s)) =
           Some (Rejected (JStr ''ws is undefined'')) \<and>
         map_of (pending (snd (send m timeout k t s))) k = Some (length (promises s))"
  using assms
  by (simp add: send_def Let_def setTimeout_def settle_def future_def AList.update_conv')

lemma send_throws:
  assumes "ready s" and "ws s = Some w"
  shows "future (snd (send m timeout k (TxThrows x) s)) (length (promises s)) =
           Some (Rejected (JError x)) \<and>
         map_of (pending (snd (send m timeout k (TxThrows x) s))) k = Some (length (promises s)) \<and>
         timers (snd (send m timeout k (TxThrows x) s)) = timers s"
  using assms
  by (simp add: send_def Let_def setTimeout_def settle_def future_def AList.update_conv')

text \<open>
  C7 (a send whose transmission fails synchronously rejects the slot at once and removes
  the id from the pending store) does not hold of the code at these inputs. On
  \<open>handle_lost\<close>, which is ready without a socket handle, \<open>send\<close> rejects the
  promise with \<^verbatim>\<open>ws is undefined\<close> and returns with key \<^verbatim>\<open>A\<close> in \<open>pending\<close>
  and the deadline timer set. On \<open>reconnecting\<close>, whose socket throws on
  \<^verbatim>\<open>send\<close>, the promise is rejected with the exception and \<open>send\<close> returns with
  key \<^verbatim>\<open>A\<close> in \<open>pending\<close> and no timer set.
\<close>

theorem failed_transmission_stays_pending:
  "ready handle_lost \<and> ws handle_lost = None \<and>
   fst (send (JStr ''hello'') None ''A'' TxOk handle_lost) = Inr 0 \<and>
   future (snd (send (JStr ''hello'') None ''A'' TxOk handle_lost)) 0
     = Some (Rejected (JStr ''ws is undefined'')) \<and>
   pending (snd (send (JStr ''hello'') None ''A'' TxOk handle_lost)) = [(''A'', 0)] \<and>
   timers (snd (send (JStr ''hello'') None ''A'' TxOk handle_lost)) = [(''A'', 10000)] \<and>
   ready reconnecting \<and> ws reconnecting = Some 2 \<and>
   fst (send (JStr ''hello'') None ''A'' (TxThrows ''InvalidStateError'') reconnecting) = Inr 0 \<and>
   future (snd (send (JStr ''hello'') None ''A'' (TxThrows ''InvalidStateError'') reconnecting)) 0
     = Some (Rejected (JError ''InvalidStateError'')) \<and>
   pending (snd (send (JStr ''hello'') None ''A'' (TxThrows ''InvalidStateError'') reconnecting))
     = [(''A'', 0)] \<and>
   timers (snd (send (JStr ''hello'') None ''A'' (TxThrows ''InvalidStateError'') reconnecting))
     = []"
  by (simp add: handle_lost_def reconnecting_def run_def send_def onopen_def trigger_def
      cleanup_def clearInterval_def setTimeout_def settle_def future_def Let_def
      connected_simps idle_def new_Wssgrok_def connect_def MESSAGE_TIMEOUT_MS_def)

end
